theory Spec2Isabelle
  imports Main "HOL-Library.Word"
begin

section \<open>JavaScript strings\<close>

text \<open>
  A JavaScript string is a sequence of 16-bit UTF-16 code units. Literals of the source
  are written \<open>js ''...''\<close>; every character of such a literal is ASCII here, and the two
  non-ASCII code units of the source are given by their numbers.
\<close>

type_synonym jschar = "16 word"
type_synonym jsstring = "jschar list"

definition js :: "string \<Rightarrow> jsstring" where
  "js s = map of_char s"

definition newline :: jschar where "newline = 0x0A"
definition colon :: jschar where "colon = 0x3A"
definition comma :: jschar where "comma = 0x2C"
definition dquote :: jschar where "dquote = 0x22"

text \<open>
  \<open>String.prototype.split(sep)\<close> for a one-character separator: the string is cut at every
  occurrence of the separator, empty pieces are kept, and the empty string gives one empty
  piece. The result therefore always has at least one element; the last case branch below
  stands for a result without elements and is never taken.
\<close>

fun split :: "jschar \<Rightarrow> jsstring \<Rightarrow> jsstring list" where
  "split sep [] = [[]]"
| "split sep (c # cs) =
     (if c = sep then [] # split sep cs
      else (case split sep cs of p # ps \<Rightarrow> (c # p) # ps | [] \<Rightarrow> [[c]]))"

text \<open>\<open>Array.prototype.join(sep)\<close> on an array of strings.\<close>

fun join :: "jschar \<Rightarrow> jsstring list \<Rightarrow> jsstring" where
  "join sep [] = []"
| "join sep [p] = p"
| "join sep (p # q # ps) = p @ sep # join sep (q # ps)"

text \<open>
  The code units that \<open>String.prototype.trim\<close> removes: ECMAScript's WhiteSpace (TAB, VT,
  FF, ZWNBSP and the Unicode space separators) and LineTerminator (LF, CR, LS, PS).
\<close>

definition isWhiteSpace :: "jschar \<Rightarrow> bool" where
  "isWhiteSpace c =
     (c = 0x0009 \<or> c = 0x000A \<or> c = 0x000B \<or> c = 0x000C \<or> c = 0x000D \<or> c = 0x0020
      \<or> c = 0x00A0 \<or> c = 0x1680 \<or> (0x2000 \<le> c \<and> c \<le> 0x200A) \<or> c = 0x2028
      \<or> c = 0x2029 \<or> c = 0x202F \<or> c = 0x205F \<or> c = 0x3000 \<or> c = 0xFEFF)"

definition trim :: "jsstring \<Rightarrow> jsstring" where
  "trim s = rev (dropWhile isWhiteSpace (rev (dropWhile isWhiteSpace s)))"

text \<open>\<open>String.prototype.startsWith\<close>.\<close>

definition startsWith :: "jsstring \<Rightarrow> jsstring \<Rightarrow> bool" where
  "startsWith s p = (take (length p) s = p)"


section \<open>Flashcards and the response parser\<close>

record Flashcard =
  "term" :: jsstring
  "definition" :: jsstring

text \<open>
  A value thrown by the program or by the platform, with its \<open>message\<close> property when it
  has one.
\<close>

datatype js_error = JsError "jsstring option"

text \<open>
  Calling \<open>trim\<close> on \<open>parts[0]\<close>: an index outside the array gives \<open>undefined\<close>, and a
  method call on \<open>undefined\<close> throws a TypeError (the message is the engine's).
\<close>

fun trimPart0 :: "jsstring list \<Rightarrow> js_error + jsstring" where
  "trimPart0 [] = Inl (JsError (Some (js ''Cannot read properties of undefined'')))"
| "trimPart0 (p # ps) = Inr (trim p)"

text \<open>
  The callback of \<open>map\<close> in the click handler of \<open>generateButton\<close> (lines 253 to 263):
  \<open>None\<close> is the callback's \<open>null\<close>. A non-empty string is truthy, the empty one falsy.
\<close>

definition parseLine :: "jsstring \<Rightarrow> js_error + Flashcard option" where
  "parseLine line =
     (let parts = split colon line in
      if length parts \<ge> 2 then
        (case trimPart0 parts of
           Inl e \<Rightarrow> Inl e
         | Inr t \<Rightarrow>
             if t \<noteq> [] then
               (case trimPart0 parts of
                  Inl e \<Rightarrow> Inl e
                | Inr term' \<Rightarrow>
                    (let definition' = trim (join colon (drop 1 parts)) in
                     if definition' \<noteq> [] then
                       Inr (Some \<lparr>term = term', definition = definition'\<rparr>)
                     else Inr None))
             else Inr None)
      else Inr None)"

text \<open>\<open>Array.prototype.map\<close> with a callback that may throw: the first throw ends the loop.\<close>

fun mapThrowing :: "('a \<Rightarrow> js_error + 'b) \<Rightarrow> 'a list \<Rightarrow> js_error + 'b list" where
  "mapThrowing f [] = Inr []"
| "mapThrowing f (x # xs) =
     (case f x of
        Inl e \<Rightarrow> Inl e
      | Inr y \<Rightarrow> (case mapThrowing f xs of Inl e \<Rightarrow> Inl e | Inr ys \<Rightarrow> Inr (y # ys)))"

text \<open>\<open>.filter(card => card !== null)\<close>.\<close>

fun filterNotNull :: "'a option list \<Rightarrow> 'a list" where
  "filterNotNull [] = []"
| "filterNotNull (None # xs) = filterNotNull xs"
| "filterNotNull (Some x # xs) = x # filterNotNull xs"

text \<open>
  The inline parser of the click handler (lines 251 to 264), which the specification calls
  \<open>parseFlashcards\<close>.
\<close>

definition parseFlashcards :: "jsstring \<Rightarrow> js_error + Flashcard list" where
  "parseFlashcards responseText =
     (case mapThrowing parseLine (split newline responseText) of
        Inl e \<Rightarrow> Inl e
      | Inr cards \<Rightarrow> Inr (filterNotNull cards))"

text \<open>
  The parser as the specification words it (section 4.2, steps 1 to 7): a line gives a
  record only if splitting it on the colon gives at least two parts and the first part,
  trimmed, is not empty; the term is the first part trimmed, the definition the remaining
  parts rejoined with a colon and trimmed; the record is dropped if that definition is
  empty; every other line gives nothing.
\<close>

definition spec_records_of_line :: "jsstring \<Rightarrow> Flashcard list" where
  "spec_records_of_line line =
     (case split colon line of
        first # second # others \<Rightarrow>
          if trim first = [] then []
          else if trim (join colon (second # others)) = [] then []
          else [\<lparr>term = trim first, definition = trim (join colon (second # others))\<rparr>]
      | _ \<Rightarrow> [])"

definition spec_parseFlashcards :: "jsstring \<Rightarrow> Flashcard list" where
  "spec_parseFlashcards raw = concat (map spec_records_of_line (split newline raw))"


section \<open>CSV export\<close>

text \<open>\<open>/[",\n]/.test(field)\<close>: some code unit of the field is a quote, a comma or a newline.\<close>

definition testSpecial :: "jsstring \<Rightarrow> bool" where
  "testSpecial field = list_ex (\<lambda>c. c = dquote \<or> c = comma \<or> c = newline) field"

text \<open>\<open>field.replace(/"/g, '""')\<close>.\<close>

fun replaceQuotes :: "jsstring \<Rightarrow> jsstring" where
  "replaceQuotes [] = []"
| "replaceQuotes (c # cs) =
     (if c = dquote then dquote # dquote # replaceQuotes cs else c # replaceQuotes cs)"

definition escapeCsvField :: "jsstring \<Rightarrow> jsstring" where
  "escapeCsvField field =
     (if testSpecial field then [dquote] @ replaceQuotes field @ [dquote] else field)"

text \<open>
  The click handler of \<open>exportCsvButton\<close> up to \<open>csvContent\<close> (lines 103 to 123): \<open>None\<close>
  when the handler returns before building anything, otherwise the text put in the blob.
\<close>

definition exportCsv :: "Flashcard list \<Rightarrow> jsstring option" where
  "exportCsv currentFlashcards =
     (if length currentFlashcards = 0 then None
      else
        (let csvHeader = js ''Term,Definition'' @ [newline];
             csvRows = join newline
               (map (\<lambda>c. escapeCsvField (term c) @ [comma] @ escapeCsvField (definition c))
                  currentFlashcards)
         in Some (csvHeader @ csvRows)))"

text \<open>
  The export format as the specification words it (section 6): a field that contains a
  comma, a double quote or a newline is wrapped in double quotes with its double quotes
  doubled; a row is the term, a comma and the definition; the header line and the rows are
  joined by newlines.
\<close>

definition spec_csv_field :: "jsstring \<Rightarrow> jsstring" where
  "spec_csv_field f =
     (if comma \<in> set f \<or> dquote \<in> set f \<or> newline \<in> set f
      then dquote # concat (map (\<lambda>c. if c = dquote then [dquote, dquote] else [c]) f) @ [dquote]
      else f)"

definition spec_csv_row :: "Flashcard \<Rightarrow> jsstring" where
  "spec_csv_row c = spec_csv_field (term c) @ comma # spec_csv_field (definition c)"

definition spec_csv :: "Flashcard list \<Rightarrow> jsstring" where
  "spec_csv cards = join newline (js ''Term,Definition'' # map spec_csv_row cards)"


section \<open>Prompt builder\<close>

text \<open>
  \<open>isUrl\<close> calls the platform's \<open>URL\<close> constructor, which is not code of this program: it
  is the parameter \<open>urlParses\<close>, true of the strings for which \<open>new URL(text)\<close> returns
  and false of those for which it throws.
\<close>

definition isUrl :: "(jsstring \<Rightarrow> bool) \<Rightarrow> jsstring \<Rightarrow> bool" where
  "isUrl urlParses text =
     (if urlParses text then startsWith text (js ''http://'') \<or> startsWith text (js ''https://'')
      else False)"

text \<open>The two template literals of \<open>createPrompt\<close> (lines 153 to 156 and 158 to 161).\<close>

definition urlPrompt :: "jsstring \<Rightarrow> jsstring" where
  "urlPrompt topic =
     js ''Generate a list of flashcards that summarize the key information from the content at this URL: ''
     @ [dquote] @ topic @ [dquote]
     @ js ''. Each flashcard should have a term and a concise definition. Format the output as a list of ''
     @ [dquote] @ js ''Term: Definition'' @ [dquote]
     @ js '' pairs, with each pair on a new line.'' @ [newline]
     @ js ''    Example:'' @ [newline]
     @ js ''    Roman Republic: The period of ancient Roman civilization beginning with the overthrow of the Roman Kingdom.''
     @ [newline]
     @ js ''    Julius Caesar: A Roman general and statesman who played a critical role in the events that led to the demise of the Roman Republic.''"

definition topicPrompt :: "jsstring \<Rightarrow> jsstring" where
  "topicPrompt topic =
     js ''Generate a list of flashcards for the following topic or text: ''
     @ [dquote] @ topic @ [dquote]
     @ js ''. Each flashcard should have a term and a concise definition. Format the output as a list of ''
     @ [dquote] @ js ''Term: Definition'' @ [dquote]
     @ js '' pairs, with each pair on a new line. Ensure terms and definitions are distinct and clearly separated by a single colon.''
     @ [newline]
     @ js ''  Example output for the topic '' @ [dquote] @ js ''Spanish Greetings'' @ [dquote] @ js '':''
     @ [newline]
     @ js ''  Hello: Hola'' @ [newline]
     @ js ''  Goodbye: Adi'' @ [0xC3, 0xB3] @ js ''s''"

definition createPrompt :: "(jsstring \<Rightarrow> bool) \<Rightarrow> jsstring \<Rightarrow> jsstring" where
  "createPrompt urlParses topic =
     (if isUrl urlParses topic then urlPrompt topic else topicPrompt topic)"


section \<open>The page and the click handler of the generate button\<close>

text \<open>
  The part of the page that the handler reads and writes: the value of \<open>topicInput\<close>, the
  text of \<open>errorMessage\<close>, the cards rendered in \<open>flashcardsContainer\<close> (in order, empty
  when it is cleared), the \<open>hidden\<close> flag of \<open>exportCsvButton\<close>, the \<open>disabled\<close> flag of
  \<open>generateButton\<close>, and the variable \<open>currentFlashcards\<close>.
\<close>

record Page =
  topicInput :: jsstring
  errorMessage :: jsstring
  flashcardsContainer :: "Flashcard list"
  exportHidden :: bool
  generateDisabled :: bool
  currentFlashcards :: "Flashcard list"

definition msgEnterTopic :: jsstring where
  "msgEnterTopic = js ''Please enter a topic, URL, or import a file.''"

definition msgGenerating :: jsstring where
  "msgGenerating = js ''Generating flashcards...''"

definition msgNoValid :: jsstring where
  "msgNoValid =
     js ''No valid flashcards could be generated from the response. Please check the format.''"

definition msgFailed :: jsstring where
  "msgFailed =
     js ''Failed to generate flashcards or received an empty response. Please try again.''"

definition displayFlashcards :: "Flashcard list \<Rightarrow> Page \<Rightarrow> Page" where
  "displayFlashcards flashcards s =
     (let s1 = s\<lparr>flashcardsContainer := [], currentFlashcards := [], exportHidden := True\<rparr> in
      if length flashcards > 0 then
        s1\<lparr>errorMessage := [], currentFlashcards := flashcards, exportHidden := False,
           flashcardsContainer := flashcards\<rparr>
      else s1\<lparr>errorMessage := msgNoValid\<rparr>)"

text \<open>
  The statements of the \<open>try\<close> block after the \<open>await\<close> (lines 248 to 271). \<open>text\<close> is
  \<open>result.text\<close>, \<open>None\<close> when it is \<open>undefined\<close>. The inline parser is the parameter
  \<open>parse\<close>, so that a theorem can say of a branch that it does not run the parser; the
  program runs it with \<open>parseFlashcards\<close>.
\<close>

definition respondWith ::
  "(jsstring \<Rightarrow> js_error + Flashcard list) \<Rightarrow> jsstring option \<Rightarrow> Page \<Rightarrow> js_error + Page" where
  "respondWith parse text s =
     (let responseText = (case text of None \<Rightarrow> [] | Some t \<Rightarrow> t) in
      if responseText \<noteq> [] then
        (case parse responseText of
           Inl e \<Rightarrow> Inl e
         | Inr flashcards \<Rightarrow> Inr (displayFlashcards flashcards s))
      else Inr (s\<lparr>errorMessage := msgFailed\<rparr>))"

text \<open>The \<open>catch\<close> block (lines 272 to 277).\<close>

definition catchBlock :: "js_error \<Rightarrow> Page \<Rightarrow> Page" where
  "catchBlock error s =
     (let detailedError =
            (case error of
               JsError None \<Rightarrow> js ''An unknown error occurred''
             | JsError (Some m) \<Rightarrow> if m \<noteq> [] then m else js ''An unknown error occurred'')
      in s\<lparr>errorMessage := js ''An error occurred: '' @ detailedError, flashcardsContainer := []\<rparr>)"

text \<open>
  The click handler of \<open>generateButton\<close> (lines 226 to 281). \<open>generateContent\<close> is the
  awaited call of the generation service on the prompt: it rejects with an error or
  resolves with the \<open>text\<close> of the result. Nothing between the start of the \<open>try\<close> block
  and a throw changes the page, so the \<open>catch\<close> block starts from the page as it was
  before the \<open>try\<close>.
\<close>

definition generateButtonClickWith ::
  "(jsstring \<Rightarrow> js_error + Flashcard list) \<Rightarrow> (jsstring \<Rightarrow> bool)
     \<Rightarrow> (jsstring \<Rightarrow> js_error + jsstring option) \<Rightarrow> Page \<Rightarrow> Page" where
  "generateButtonClickWith parse urlParses generateContent s =
     (let topic = trim (topicInput s) in
      if topic = [] then s\<lparr>errorMessage := msgEnterTopic, flashcardsContainer := []\<rparr>
      else
        (let s1 = s\<lparr>errorMessage := msgGenerating, flashcardsContainer := [],
                     generateDisabled := True, exportHidden := True, currentFlashcards := []\<rparr>;
             prompt = createPrompt urlParses topic;
             s2 = (case generateContent prompt of
                     Inl e \<Rightarrow> catchBlock e s1
                   | Inr text \<Rightarrow>
                       (case respondWith parse text s1 of
                          Inl e \<Rightarrow> catchBlock e s1
                        | Inr s' \<Rightarrow> s'))
         in s2\<lparr>generateDisabled := False\<rparr>))"

definition generateButtonClick ::
  "(jsstring \<Rightarrow> bool) \<Rightarrow> (jsstring \<Rightarrow> js_error + jsstring option) \<Rightarrow> Page \<Rightarrow> Page" where
  "generateButtonClick = generateButtonClickWith parseFlashcards"


section \<open>Splitting and trimming\<close>

lemma split_not_Nil: "split sep s \<noteq> []"
  by (induction s) (auto split: list.splits)

lemma split_append_sep: "split sep (a @ sep # b) = split sep a @ split sep b"
proof (induction a)
  case Nil
  show ?case by simp
next
  case (Cons c a)
  show ?case
  proof (cases "c = sep")
    case True
    with Cons show ?thesis by simp
  next
    case False
    obtain p ps where ps: "split sep a = p # ps"
      using split_not_Nil [of sep a] by (cases "split sep a") auto
    with False Cons show ?thesis by simp
  qed
qed

lemma sep_notin_hd_split: "sep \<notin> set (hd (split sep s))"
  by (induction s) (auto split: list.splits simp: split_not_Nil)

lemma set_trim_subset: "set (trim s) \<subseteq> set s"
  by (auto simp: trim_def dest!: set_dropWhileD)


lemma hd_split: "hd (split sep s) = takeWhile (\<lambda>c. c \<noteq> sep) s"
  by (induction s) (auto split: list.splits simp: split_not_Nil)

lemma dropWhile_keeps_last: "\<not> P x \<Longrightarrow> \<exists>w. dropWhile P (ys @ [x]) = w @ [x]"
  by (induction ys) auto

lemma trim_idem: "trim (trim s) = trim s"
proof -
  let ?P = isWhiteSpace
  let ?u = "dropWhile ?P s"
  let ?v = "dropWhile ?P (rev ?u)"
  have front: "dropWhile ?P (rev ?v) = rev ?v"
  proof (cases ?u)
    case Nil
    then show ?thesis by (simp del: dropWhile_eq_Nil_conv)
  next
    case (Cons x u')
    then have nx: "\<not> ?P x" using hd_dropWhile [of ?P s] by simp
    from dropWhile_keeps_last [of ?P x "rev u'", OF nx]
    obtain w where "dropWhile ?P (rev u' @ [x]) = w @ [x]" ..
    with Cons nx show ?thesis by simp
  qed
  have "trim (trim s) = rev (dropWhile ?P (rev (dropWhile ?P (rev ?v))))"
    by (simp add: trim_def)
  also have "\<dots> = rev (dropWhile ?P ?v)" by (simp add: front)
  also have "\<dots> = rev ?v" by simp
  finally show ?thesis by (simp add: trim_def)
qed

lemmas js_eval = js_def newline_def colon_def comma_def dquote_def isWhiteSpace_def trim_def


section \<open>The parser computes what the specification describes\<close>

lemma parseLine_spec:
  "parseLine line =
     Inr (case spec_records_of_line line of [] \<Rightarrow> None | c # cs \<Rightarrow> Some c)"
  by (cases "split colon line" rule: list.exhaust; cases "tl (split colon line)")
    (auto simp: parseLine_def spec_records_of_line_def Let_def split: list.splits)

lemma spec_records_of_line_short: "length (spec_records_of_line line) \<le> 1"
  by (simp add: spec_records_of_line_def split: list.splits)

lemma mapThrowing_total: "(\<And>x. f x = Inr (g x)) \<Longrightarrow> mapThrowing f xs = Inr (map g xs)"
  by (induction xs) simp_all

lemma filterNotNull_spec:
  "filterNotNull (map (\<lambda>l. case spec_records_of_line l of [] \<Rightarrow> None | c # cs \<Rightarrow> Some c) ls)
     = concat (map spec_records_of_line ls)"
proof (induction ls)
  case Nil
  show ?case by simp
next
  case (Cons l ls)
  show ?case
  proof (cases "spec_records_of_line l")
    case Nil
    with Cons show ?thesis by simp
  next
    case (Cons c cs)
    with spec_records_of_line_short [of l] have "cs = []" by simp
    with Cons Cons.IH show ?thesis by simp
  qed
qed

lemma parseFlashcards_spec: "parseFlashcards raw = Inr (spec_parseFlashcards raw)"
  by (simp add: parseFlashcards_def spec_parseFlashcards_def
      mapThrowing_total [of parseLine, OF parseLine_spec] filterNotNull_spec)

text \<open>
  Claim C1. For every input string, the response parser returns exactly the list that the
  specification's algorithm produces: the input is split into lines at the newlines, each
  line is split at every colon, a line gives a record only if there are at least two parts
  and the trimmed first part is not empty, the term is the trimmed first part, the
  definition is the remaining parts rejoined with a colon and trimmed, a record with an
  empty definition is dropped, and every other line gives nothing.
\<close>

theorem parser_refines_spec: "parseFlashcards raw = Inr (spec_parseFlashcards raw)"
  by (rule parseFlashcards_spec)

lemma spec_records_term:
  "c \<in> set (spec_records_of_line line) \<Longrightarrow> term c = trim (takeWhile (\<lambda>x. x \<noteq> colon) line)"
  using hd_split [of colon line]
  by (cases "split colon line") (auto simp: spec_records_of_line_def split: list.splits if_splits)

lemma spec_records_nonempty:
  "c \<in> set (spec_records_of_line line) \<Longrightarrow> term c \<noteq> [] \<and> definition c \<noteq> []"
  by (auto simp: spec_records_of_line_def split: list.splits if_splits)

lemma spec_records_trimmed:
  "c \<in> set (spec_records_of_line line) \<Longrightarrow>
     trim (term c) = term c \<and> trim (definition c) = definition c"
  by (auto simp: spec_records_of_line_def trim_idem split: list.splits if_splits)

text \<open>
  Claim C4. Parsing the single line \<open>Term: part1: part2\<close> gives exactly one record, with
  term \<open>Term\<close> and definition \<open>part1: part2\<close>: the colons after the first one stay in the
  definition.
\<close>

theorem parse_keeps_later_colons:
  "parseFlashcards (js ''Term: part1: part2'')
     = Inr [\<lparr>term = js ''Term'', definition = js ''part1: part2''\<rparr>]"
  by (simp add: parseFlashcards_def parseLine_def js_eval)

text \<open>
  Claim C5. The records of the output stand in the order of the lines they come from, and
  nothing is deduplicated: parsing a text \<open>a\<close>, a newline and a text \<open>b\<close> gives the
  records of \<open>a\<close> followed by the records of \<open>b\<close>, whatever the two texts are (equal
  texts included, whose records then appear twice).
\<close>

theorem parser_keeps_line_order:
  "\<exists>xs ys. parseFlashcards a = Inr xs \<and> parseFlashcards b = Inr ys
      \<and> parseFlashcards (a @ newline # b) = Inr (xs @ ys)"
  by (simp add: parseFlashcards_spec spec_parseFlashcards_def split_append_sep)

text \<open>
  Claim C6. For every input string, malformed or not, the parser returns normally: the
  result is never a thrown error but a list of records, possibly empty, each with a term
  and a definition that are trimmed and not empty.
\<close>

theorem parser_never_throws:
  "\<exists>cards. parseFlashcards raw = Inr cards
     \<and> list_all (\<lambda>c. term c \<noteq> [] \<and> definition c \<noteq> []
           \<and> trim (term c) = term c \<and> trim (definition c) = definition c) cards"
  by (auto simp: parseFlashcards_spec spec_parseFlashcards_def list_all_iff
      spec_records_nonempty spec_records_trimmed)

text \<open>
  Claim C9. The term of every record that the parser produces contains no colon: it is the
  trimmed text before the first colon of a line of the input.
\<close>

theorem parser_term_has_no_colon:
  "parseFlashcards raw = Inr cards \<Longrightarrow> c \<in> set cards \<Longrightarrow>
     colon \<notin> set (term c) \<and>
     (\<exists>line \<in> set (split newline raw). term c = trim (takeWhile (\<lambda>x. x \<noteq> colon) line))"
proof -
  assume "parseFlashcards raw = Inr cards" and c: "c \<in> set cards"
  then have "cards = spec_parseFlashcards raw" by (simp add: parseFlashcards_spec)
  with c obtain line where l: "line \<in> set (split newline raw)"
    and cl: "c \<in> set (spec_records_of_line line)"
    by (auto simp: spec_parseFlashcards_def)
  from cl have t: "term c = trim (takeWhile (\<lambda>x. x \<noteq> colon) line)"
    by (rule spec_records_term)
  have "set (term c) \<subseteq> set (takeWhile (\<lambda>x. x \<noteq> colon) line)"
    unfolding t by (rule set_trim_subset)
  then have "colon \<notin> set (term c)" by (auto dest: set_takeWhileD)
  with l t show ?thesis by blast
qed

theorem parser_term_has_no_colon_witness:
  "parseFlashcards (js ''a:b:c'') = Inr [\<lparr>term = js ''a'', definition = js ''b:c''\<rparr>]
   \<and> colon \<notin> set (js ''a'')"
proof -
  have p: "parseFlashcards (js ''a:b:c'') = Inr [\<lparr>term = js ''a'', definition = js ''b:c''\<rparr>]"
    by (simp add: parseFlashcards_def parseLine_def js_eval)
  from parser_term_has_no_colon [OF p, of "\<lparr>term = js ''a'', definition = js ''b:c''\<rparr>"]
  show ?thesis using p by simp
qed


section \<open>The CSV export has the format of the specification\<close>

lemma testSpecial_iff:
  "testSpecial f \<longleftrightarrow> comma \<in> set f \<or> dquote \<in> set f \<or> newline \<in> set f"
  by (auto simp: testSpecial_def list_ex_iff)

lemma replaceQuotes_concat:
  "replaceQuotes f = concat (map (\<lambda>c. if c = dquote then [dquote, dquote] else [c]) f)"
  by (induction f) simp_all

lemma escapeCsvField_spec: "escapeCsvField f = spec_csv_field f"
  by (simp add: escapeCsvField_def spec_csv_field_def testSpecial_iff replaceQuotes_concat)

lemma join_last_row:
  "rows \<noteq> [] \<Longrightarrow> last rows \<noteq> [] \<Longrightarrow>
     join sep rows \<noteq> [] \<and> last (join sep rows) = last (last rows)"
  by (induction sep rows rule: join.induct) simp_all

lemma last_spec_csv_field:
  assumes "f \<noteq> []"
  shows "last (spec_csv_field f) \<noteq> newline"
proof (cases "comma \<in> set f \<or> dquote \<in> set f \<or> newline \<in> set f")
  case True
  then show ?thesis by (simp add: spec_csv_field_def newline_def dquote_def)
next
  case False
  from assms have "last f \<in> set f" by simp
  with False have "last f \<noteq> newline" by metis
  with False show ?thesis by (simp add: spec_csv_field_def)
qed

lemma last_spec_csv_row: "last (spec_csv_row c) \<noteq> newline"
proof (cases "definition c = []")
  case True
  then show ?thesis by (simp add: spec_csv_row_def spec_csv_field_def comma_def newline_def)
next
  case False
  then have "spec_csv_field (definition c) \<noteq> []" by (auto simp: spec_csv_field_def)
  with False show ?thesis by (simp add: spec_csv_row_def last_spec_csv_field)
qed

text \<open>
  Claim C3. The CSV export writes the header line \<open>Term,Definition\<close> and then one row for
  each flashcard of the current set, in the order of the set: the term, a comma and the
  definition, where a field with a comma, a double quote or a newline in it is wrapped in
  double quotes with its double quotes doubled. The header and the rows are joined by single
  newlines, and the text does not end with a newline. (With an empty set the handler
  returns before it builds any text.)
\<close>

theorem csv_export_format:
  "(cards \<noteq> [] \<longrightarrow>
      exportCsv cards = Some (spec_csv cards) \<and> last (spec_csv cards) \<noteq> newline)
   \<and> exportCsv [] = None"
proof -
  have "exportCsv cards = Some (spec_csv cards) \<and> last (spec_csv cards) \<noteq> newline"
    if ne: "cards \<noteq> []"
  proof -
    from ne obtain c cs where cards: "cards = c # cs" by (cases cards) auto
    have rows: "map (\<lambda>c. escapeCsvField (term c) @ [comma] @ escapeCsvField (definition c)) cards
        = map spec_csv_row cards"
      by (simp add: escapeCsvField_spec spec_csv_row_def)
    have e: "exportCsv cards = Some (spec_csv cards)"
      unfolding exportCsv_def spec_csv_def Let_def rows by (simp add: cards)
    have "last (map spec_csv_row cards) \<noteq> []" using ne
      by (simp add: last_map spec_csv_row_def)
    then have "last (spec_csv cards) = last (last (map spec_csv_row cards))"
      unfolding spec_csv_def using ne by (subst join_last_row [THEN conjunct2]) auto
    also have "\<dots> = last (spec_csv_row (last cards))" using ne by (simp add: last_map)
    finally have "last (spec_csv cards) \<noteq> newline" by (simp add: last_spec_csv_row)
    with e show ?thesis by simp
  qed
  moreover have "exportCsv [] = None" by (simp add: exportCsv_def)
  ultimately show ?thesis by simp
qed

theorem csv_export_format_witness:
  "exportCsv [\<lparr>term = js ''a'', definition = js ''He said, \"hi\"''\<rparr>,
              \<lparr>term = js ''x'', definition = js ''y''\<rparr>]
     = Some (js ''Term,Definition'' @ [newline] @ js ''a,\"He said, \"\"hi\"\"\"''
             @ [newline] @ js ''x,y'')"
proof -
  let ?cards = "[\<lparr>term = js ''a'', definition = js ''He said, \"hi\"''\<rparr>,
                 \<lparr>term = js ''x'', definition = js ''y''\<rparr>]"
  have "exportCsv ?cards = Some (spec_csv ?cards)"
    using csv_export_format [of ?cards] by simp
  moreover have "spec_csv ?cards
      = js ''Term,Definition'' @ [newline] @ js ''a,\"He said, \"\"hi\"\"\"'' @ [newline] @ js ''x,y''"
    by (simp add: spec_csv_def spec_csv_row_def spec_csv_field_def js_eval)
  ultimately show ?thesis by simp
qed

text \<open>
  Claim C10. \<open>escapeCsvField\<close> returns a field without comma, double quote and newline as
  it is, so that such a field stands in the CSV text unchanged and unquoted.
\<close>

theorem escapeCsvField_plain:
  assumes "comma \<notin> set f" and "dquote \<notin> set f" and "newline \<notin> set f"
  shows "escapeCsvField f = f
    \<and> exportCsv [\<lparr>term = f, definition = f\<rparr>]
        = Some (js ''Term,Definition'' @ [newline] @ f @ [comma] @ f)"
  using assms by (simp add: escapeCsvField_def testSpecial_iff exportCsv_def)

theorem escapeCsvField_plain_witness:
  "escapeCsvField (js ''Roman Republic'') = js ''Roman Republic''"
  using escapeCsvField_plain [of "js ''Roman Republic''"] by (simp add: js_eval)


section \<open>The prompt builder\<close>

lemma prompts_differ: "urlPrompt topic \<noteq> topicPrompt topic'"
  by (simp add: urlPrompt_def topicPrompt_def js_def)

lemma isUrl_example_no:
  "\<not> isUrl u (js ''Roman history'')" "\<not> isUrl u (js ''httpsomething'')"
  by (simp_all add: isUrl_def startsWith_def js_def)

lemma startsWith_example: "startsWith (js ''https://example.com/page'') (js ''https://'')"
  by (simp add: startsWith_def js_def)

text \<open>
  Claim C2. \<open>createPrompt\<close> gives the URL template exactly when the platform's URL parser
  accepts the topic and the topic starts with \<open>http://\<close> or \<open>https://\<close>, and the topic
  template otherwise. So \<open>https://example.com/page\<close>, which the URL parser accepts, gets
  the URL template, and \<open>Roman history\<close> and \<open>httpsomething\<close> get the topic template
  whatever the URL parser says of them.
\<close>

theorem createPrompt_classification:
  "(createPrompt u topic = urlPrompt topic \<longleftrightarrow>
      u topic \<and> (startsWith topic (js ''http://'') \<or> startsWith topic (js ''https://'')))
   \<and> (createPrompt u topic = topicPrompt topic \<longleftrightarrow>
      \<not> (u topic \<and> (startsWith topic (js ''http://'') \<or> startsWith topic (js ''https://''))))
   \<and> (u (js ''https://example.com/page'') \<longrightarrow>
        createPrompt u (js ''https://example.com/page'')
          = urlPrompt (js ''https://example.com/page''))
   \<and> createPrompt u (js ''Roman history'') = topicPrompt (js ''Roman history'')
   \<and> createPrompt u (js ''httpsomething'') = topicPrompt (js ''httpsomething'')"
proof -
  have a: "createPrompt u topic = urlPrompt topic \<longleftrightarrow> isUrl u topic"
    using prompts_differ [of topic topic] by (auto simp: createPrompt_def)
  have b: "createPrompt u topic = topicPrompt topic \<longleftrightarrow> \<not> isUrl u topic"
    using prompts_differ [of topic topic] by (auto simp: createPrompt_def)
  have c: "isUrl u topic \<longleftrightarrow>
      u topic \<and> (startsWith topic (js ''http://'') \<or> startsWith topic (js ''https://''))"
    by (simp add: isUrl_def)
  have d: "u (js ''https://example.com/page'') \<longrightarrow>
        createPrompt u (js ''https://example.com/page'')
          = urlPrompt (js ''https://example.com/page'')"
    by (simp add: createPrompt_def isUrl_def startsWith_example)
  have e: "createPrompt u (js ''Roman history'') = topicPrompt (js ''Roman history'')"
    "createPrompt u (js ''httpsomething'') = topicPrompt (js ''httpsomething'')"
    by (simp_all add: createPrompt_def isUrl_example_no)
  from a b c d e show ?thesis by simp
qed

theorem createPrompt_classification_witness:
  "createPrompt (\<lambda>t. True) (js ''https://example.com/page'')
     = urlPrompt (js ''https://example.com/page'')
   \<and> createPrompt (\<lambda>t. True) (js ''httpsomething'') = topicPrompt (js ''httpsomething'')"
  using createPrompt_classification [of "\<lambda>t. True" "js ''https://example.com/page''"]
  by simp


section \<open>The click handler of the generate button\<close>

lemma msgs_differ:
  "msgFailed \<noteq> msgNoValid" "msgEnterTopic \<noteq> msgFailed" "msgEnterTopic \<noteq> msgNoValid"
  "msgFailed \<noteq> []" "msgNoValid \<noteq> []"
  "js ''An error occurred: '' @ d \<noteq> msgFailed" "js ''An error occurred: '' @ d \<noteq> msgNoValid"
  by (simp_all add: msgFailed_def msgNoValid_def msgEnterTopic_def js_def)

lemmas msgs_distinct = msgs_differ msgs_differ [symmetric]

lemma errorMessage_catchBlock:
  "errorMessage (catchBlock e s) \<noteq> msgFailed" "errorMessage (catchBlock e s) \<noteq> msgNoValid"
  by (simp_all add: catchBlock_def Let_def msgs_differ split: js_error.splits option.splits)

lemma errorMessage_displayFlashcards:
  "errorMessage (displayFlashcards cards s) = (if cards = [] then msgNoValid else [])"
  by (simp add: displayFlashcards_def Let_def)

lemma respondWith_empty:
  "respondWith p None s = Inr (s\<lparr>errorMessage := msgFailed\<rparr>)"
  "respondWith p (Some []) s = Inr (s\<lparr>errorMessage := msgFailed\<rparr>)"
  by (simp_all add: respondWith_def)

text \<open>When the handler leaves each of the two messages, for any parser in place of the inline one.\<close>

lemma click_msgFailed_iff:
  "errorMessage (generateButtonClickWith p u g s) = msgFailed \<longleftrightarrow>
     trim (topicInput s) \<noteq> [] \<and>
     (g (createPrompt u (trim (topicInput s))) = Inr None
      \<or> g (createPrompt u (trim (topicInput s))) = Inr (Some []))"
proof (cases "trim (topicInput s) = []")
  case True
  then show ?thesis by (simp add: generateButtonClickWith_def msgs_distinct)
next
  case False
  note topic = this
  show ?thesis
  proof (cases "g (createPrompt u (trim (topicInput s)))")
    case (Inl e)
    with topic show ?thesis
      by (simp add: generateButtonClickWith_def Let_def errorMessage_catchBlock)
  next
    case (Inr rt)
    show ?thesis
    proof (cases "rt = None \<or> rt = Some []")
      case True
      with topic Inr show ?thesis
        by (auto simp: generateButtonClickWith_def Let_def respondWith_empty)
    next
      case False
      then obtain raw where raw: "rt = Some raw" "raw \<noteq> []" by (cases rt) auto
      with topic Inr show ?thesis
        by (cases "p raw")
          (auto simp: generateButtonClickWith_def Let_def respondWith_def
            errorMessage_catchBlock errorMessage_displayFlashcards msgs_distinct)
    qed
  qed
qed

lemma click_msgNoValid_iff:
  "errorMessage (generateButtonClickWith p u g s) = msgNoValid \<longleftrightarrow>
     trim (topicInput s) \<noteq> [] \<and>
     (\<exists>raw. g (createPrompt u (trim (topicInput s))) = Inr (Some raw) \<and> raw \<noteq> []
        \<and> p raw = Inr [])"
proof (cases "trim (topicInput s) = []")
  case True
  then show ?thesis by (simp add: generateButtonClickWith_def msgs_distinct)
next
  case False
  note topic = this
  show ?thesis
  proof (cases "g (createPrompt u (trim (topicInput s)))")
    case (Inl e)
    with topic show ?thesis
      by (simp add: generateButtonClickWith_def Let_def errorMessage_catchBlock)
  next
    case (Inr rt)
    show ?thesis
    proof (cases "rt = None \<or> rt = Some []")
      case True
      with topic Inr show ?thesis
        by (auto simp: generateButtonClickWith_def Let_def respondWith_empty msgs_distinct)
    next
      case False
      then obtain raw where raw: "rt = Some raw" "raw \<noteq> []" by (cases rt) auto
      with topic Inr show ?thesis
        by (cases "p raw")
          (auto simp: generateButtonClickWith_def Let_def respondWith_def
            errorMessage_catchBlock errorMessage_displayFlashcards msgs_distinct)
    qed
  qed
qed

text \<open>
  Claim C8. An absent or empty response and a non-empty response without records are two
  cases with two messages. The handler leaves the message of a failed generation exactly
  when the service answered with no text or with the empty text, and then the result does
  not depend on the parser \<open>p\<close>, which is not run; it leaves the message of no valid
  flashcards exactly when the service answered with a non-empty text from which the parser
  gets no record; and the two messages differ.
\<close>

theorem empty_response_is_distinct_case:
  "(errorMessage (generateButtonClick u g s) = msgFailed \<longleftrightarrow>
      trim (topicInput s) \<noteq> [] \<and>
      (g (createPrompt u (trim (topicInput s))) = Inr None
       \<or> g (createPrompt u (trim (topicInput s))) = Inr (Some [])))
   \<and> (errorMessage (generateButtonClick u g s) = msgNoValid \<longleftrightarrow>
      trim (topicInput s) \<noteq> [] \<and>
      (\<exists>raw. g (createPrompt u (trim (topicInput s))) = Inr (Some raw) \<and> raw \<noteq> []
         \<and> parseFlashcards raw = Inr []))
   \<and> respondWith p None s = Inr (s\<lparr>errorMessage := msgFailed\<rparr>)
   \<and> respondWith p (Some []) s = Inr (s\<lparr>errorMessage := msgFailed\<rparr>)
   \<and> msgFailed \<noteq> msgNoValid"
  unfolding generateButtonClick_def
  by (simp only: click_msgFailed_iff click_msgNoValid_iff respondWith_empty msgs_differ)
    simp

theorem empty_response_is_distinct_case_witness:
  "errorMessage
     (generateButtonClick (\<lambda>t. False) (\<lambda>prompt. Inr None)
        \<lparr>topicInput = js '' Rome '', errorMessage = [], flashcardsContainer = [],
         exportHidden = True, generateDisabled = False, currentFlashcards = []\<rparr>)
     = msgFailed
   \<and> errorMessage
     (generateButtonClick (\<lambda>t. False) (\<lambda>prompt. Inr (Some (js ''no colon here'')))
        \<lparr>topicInput = js '' Rome '', errorMessage = [], flashcardsContainer = [],
         exportHidden = True, generateDisabled = False, currentFlashcards = []\<rparr>)
     = msgNoValid"
proof -
  let ?s = "\<lparr>topicInput = js '' Rome '', errorMessage = [], flashcardsContainer = [],
         exportHidden = True, generateDisabled = False, currentFlashcards = []\<rparr>"
  have t: "trim (topicInput ?s) \<noteq> []" by (simp add: js_eval)
  have n: "js ''no colon here'' \<noteq> []" by (simp add: js_def)
  have p: "parseFlashcards (js ''no colon here'') = Inr []"
    by (simp add: parseFlashcards_def parseLine_def js_eval)
  from empty_response_is_distinct_case [of "\<lambda>t. False" "\<lambda>prompt. Inr None" ?s] t
  have a: "errorMessage (generateButtonClick (\<lambda>t. False) (\<lambda>prompt. Inr None) ?s) = msgFailed"
    by simp
  from empty_response_is_distinct_case
    [of "\<lambda>t. False" "\<lambda>prompt. Inr (Some (js ''no colon here''))" ?s] t n p
  have b: "errorMessage
      (generateButtonClick (\<lambda>t. False) (\<lambda>prompt. Inr (Some (js ''no colon here''))) ?s)
      = msgNoValid"
    by simp
  from a b show ?thesis by simp
qed

end
